theory Spec2Isabelle
  imports Main "HOL-Library.Word" "HOL-Library.Multiset" "HOL-Library.Product_Lexorder"
begin

section \<open>Data model (app/models.py)\<close>

text \<open>
  A Python \<^verbatim>\<open>float\<close> is carried through the service without any arithmetic, so it is
  kept as its IEEE-754 binary64 bit pattern. A Python \<^verbatim>\<open>str\<close> is a \<open>string\<close>, one
  \<open>char\<close> per character (code points below 256); its length counts characters. A value
  of type \<^verbatim>\<open>Any\<close> stored in the JSON column \<^verbatim>\<open>properties\<close> is a JSON value.
\<close>

type_synonym pyfloat = "64 word"

datatype json =
    JNull
  | JBool bool
  | JInt int
  | JFloat pyfloat
  | JStr string
  | JList "json list"
  | JDict "(string \<times> json) list"

text \<open>
  A naive \<^verbatim>\<open>datetime\<close> as returned by \<^verbatim>\<open>datetime.utcnow()\<close>. Python compares two naive
  datetimes field by field, most significant field first.
\<close>

record datetime =
  year :: nat
  month :: nat
  day :: nat
  hour :: nat
  minute :: nat
  second :: nat
  microsecond :: nat

definition datetime_key :: "datetime \<Rightarrow> nat \<times> nat \<times> nat \<times> nat \<times> nat \<times> nat \<times> nat" where
  "datetime_key d = (year d, month d, day d, hour d, minute d, second d, microsecond d)"

text \<open>Decimal rendering of \<open>n\<close> on exactly \<open>w\<close> digits, zero padded (\<^verbatim>\<open>"%0wd"\<close>).\<close>

fun zpad :: "nat \<Rightarrow> nat \<Rightarrow> string" where
  "zpad 0 n = []"
| "zpad (Suc w) n = zpad w (n div 10) @ [''0123456789'' ! (n mod 10)]"

text \<open>
  \<^verbatim>\<open>datetime.isoformat()\<close> of a naive datetime: \<^verbatim>\<open>YYYY-MM-DDTHH:MM:SS\<close>, followed by
  \<^verbatim>\<open>.ffffff\<close> when the microsecond field is not zero.
\<close>

definition isoformat :: "datetime \<Rightarrow> string" where
  "isoformat d =
     zpad 4 (year d) @ ''-'' @ zpad 2 (month d) @ ''-'' @ zpad 2 (day d) @ ''T'' @
     zpad 2 (hour d) @ '':'' @ zpad 2 (minute d) @ '':'' @ zpad 2 (second d) @
     (if microsecond d = 0 then [] else ''.'' @ zpad 6 (microsecond d))"

text \<open>
  \<^verbatim>\<open>class Polygon(SQLModel, table=True)\<close>: the persisted entity. The field \<^verbatim>\<open>id\<close> is
  called \<open>ident\<close> here.
\<close>

record Polygon =
  ident :: "int option"
  name :: string
  coordinates :: "pyfloat list list list"
  properties :: "(string \<times> json) list"
  created_at :: datetime
  updated_at :: "datetime option"

text \<open>\<^verbatim>\<open>Polygon.update_timestamp\<close>: sets \<^verbatim>\<open>updated_at\<close> to the clock reading \<open>now\<close>.\<close>

definition update_timestamp :: "datetime \<Rightarrow> Polygon \<Rightarrow> Polygon" where
  "update_timestamp now polygon = polygon\<lparr>Polygon.updated_at := Some now\<rparr>"

text \<open>\<^verbatim>\<open>class PolygonCreate(SQLModel, table=False)\<close>: the creation request.\<close>

record PolygonCreate =
  name :: string
  coordinates :: "pyfloat list list list"
  properties :: "(string \<times> json) list"

text \<open>
  What is checked when the request object is built: \<^verbatim>\<open>name: min_length=1,
  max_length=255\<close>. The field \<^verbatim>\<open>coordinates\<close> declares \<^verbatim>\<open>min_items=1\<close>, but that
  keyword is not a constraint the validation applies: a request with
  \<^verbatim>\<open>coordinates=[]\<close> is built without error.
\<close>

definition PolygonCreate_valid :: "PolygonCreate \<Rightarrow> bool" where
  "PolygonCreate_valid c \<longleftrightarrow>
     1 \<le> length (PolygonCreate.name c) \<and> length (PolygonCreate.name c) \<le> 255"

text \<open>\<^verbatim>\<open>class PolygonUpdate(SQLModel, table=False)\<close>: every field optional, default None.\<close>

record PolygonUpdate =
  name :: "string option"
  coordinates :: "pyfloat list list list option"
  properties :: "(string \<times> json) list option"

text \<open>
  The length constraints of \<^verbatim>\<open>name\<close> apply when the name is not None. As in the
  creation request, \<^verbatim>\<open>min_items=1\<close> on \<^verbatim>\<open>coordinates\<close> is declared and not applied:
  \<^verbatim>\<open>PolygonUpdate(coordinates=[])\<close> is built without error.
\<close>

definition PolygonUpdate_valid :: "PolygonUpdate \<Rightarrow> bool" where
  "PolygonUpdate_valid u \<longleftrightarrow>
     (case PolygonUpdate.name u of None \<Rightarrow> True | Some n \<Rightarrow> 1 \<le> length n \<and> length n \<le> 255)"

text \<open>\<^verbatim>\<open>class PolygonResponse(SQLModel, table=False)\<close>: timestamps are ISO strings.\<close>

record PolygonResponse =
  ident :: int
  name :: string
  coordinates :: "pyfloat list list list"
  properties :: "(string \<times> json) list"
  created_at :: string
  updated_at :: "string option"

text \<open>\<^verbatim>\<open>PolygonResponse.from_polygon\<close>.\<close>

definition from_polygon :: "Polygon \<Rightarrow> PolygonResponse" where
  "from_polygon polygon =
     \<lparr> PolygonResponse.ident = (case Polygon.ident polygon of Some i \<Rightarrow> i | None \<Rightarrow> 0),
       name = Polygon.name polygon,
       coordinates = Polygon.coordinates polygon,
       properties = Polygon.properties polygon,
       created_at = isoformat (Polygon.created_at polygon),
       updated_at = (case Polygon.updated_at polygon of Some d \<Rightarrow> Some (isoformat d) | None \<Rightarrow> None) \<rparr>"

text \<open>\<^verbatim>\<open>class PolygonListResponse(SQLModel, table=False)\<close>.\<close>

record PolygonListResponse =
  polygons :: "PolygonResponse list"
  total :: int

section \<open>Storage collaborator (app/database.py and the ORM session)\<close>

text \<open>
  The table: its rows in insertion order and the next value of the auto-increment key.
\<close>

record db =
  rows :: "Polygon list"
  next_id :: int

definition empty_db :: db where
  "empty_db = \<lparr> rows = [], next_id = 1 \<rparr>"

text \<open>
  The calls of one operation that reach the storage, and the exceptions they raise.
  An operation runs against a set \<open>F\<close> of calls that fail during it.
\<close>

datatype storage_call = Connect | Get | Exec | Commit | Refresh

datatype exn = StorageError storage_call | InvalidRequestError

text \<open>
  Modelled from the spec: \<^verbatim>\<open>app.database.get_session\<close> is not among the sources. Each
  operation acquires a scoped session for the duration of the call; acquiring it is a
  storage call that can fail.
\<close>

definition get_session :: "storage_call set \<Rightarrow> exn + unit" where
  "get_session F = (if Connect \<in> F then Inl (StorageError Connect) else Inr ())"

text \<open>
  Modelled from the spec: \<^verbatim>\<open>session.get(Polygon, polygon_id)\<close> on the table keyed by
  the identifier: the row with that key, or None.
\<close>

definition session_get :: "storage_call set \<Rightarrow> db \<Rightarrow> int \<Rightarrow> exn + Polygon option" where
  "session_get F d polygon_id =
     (if Get \<in> F then Inl (StorageError Get)
      else Inr (find (\<lambda>p. Polygon.ident p = Some polygon_id) (rows d)))"

text \<open>
  Modelled from the spec: \<^verbatim>\<open>session.add(polygon); session.commit()\<close> for a new object.
  The storage assigns the auto-increment identifier on insertion; a commit that raises
  leaves the table as it was. The result is the new table and the assigned key.
\<close>

definition session_add_commit :: "storage_call set \<Rightarrow> db \<Rightarrow> Polygon \<Rightarrow> exn + (db \<times> int)" where
  "session_add_commit F d polygon =
     (if Commit \<in> F then Inl (StorageError Commit)
      else Inr (d\<lparr> rows := rows d @ [polygon\<lparr>Polygon.ident := Some (next_id d)\<rparr>],
                  next_id := next_id d + 1 \<rparr>, next_id d))"

text \<open>
  Modelled from the spec: \<^verbatim>\<open>session.add(polygon); session.commit()\<close> for an object
  loaded from the table: the row with the object's key is overwritten.
\<close>

definition session_update_commit :: "storage_call set \<Rightarrow> db \<Rightarrow> Polygon \<Rightarrow> exn + db" where
  "session_update_commit F d polygon =
     (if Commit \<in> F then Inl (StorageError Commit)
      else Inr (d\<lparr> rows := map (\<lambda>p. if Polygon.ident p = Polygon.ident polygon then polygon else p)
                                (rows d) \<rparr>))"

text \<open>
  Modelled from the spec: \<^verbatim>\<open>session.delete(polygon); session.commit()\<close>: the row with
  the object's key is removed.
\<close>

definition session_delete_commit :: "storage_call set \<Rightarrow> db \<Rightarrow> Polygon \<Rightarrow> exn + db" where
  "session_delete_commit F d polygon =
     (if Commit \<in> F then Inl (StorageError Commit)
      else Inr (d\<lparr> rows := filter (\<lambda>p. Polygon.ident p \<noteq> Polygon.ident polygon) (rows d) \<rparr>))"

text \<open>
  Modelled from the spec: \<^verbatim>\<open>session.refresh(polygon)\<close> reloads the object with the
  given key from the table, after the commit; it raises when the row is gone.
\<close>

definition session_refresh :: "storage_call set \<Rightarrow> db \<Rightarrow> int option \<Rightarrow> exn + Polygon" where
  "session_refresh F d key =
     (if Refresh \<in> F then Inl (StorageError Refresh)
      else case find (\<lambda>p. Polygon.ident p = key) (rows d) of
             None \<Rightarrow> Inl InvalidRequestError
           | Some p \<Rightarrow> Inr p)"

text \<open>
  Modelled from the spec: the storage's evaluation of
  \<^verbatim>\<open>select(Polygon).order_by(desc(Polygon.created_at))\<close>: all rows, greatest
  \<^verbatim>\<open>created_at\<close> first. The order among rows of equal \<^verbatim>\<open>created_at\<close> is the storage's
  choice; here it is the reverse of a stable ascending sort.
\<close>

definition order_by_created_at_desc :: "Polygon list \<Rightarrow> Polygon list" where
  "order_by_created_at_desc ps = rev (sort_key (\<lambda>p. datetime_key (Polygon.created_at p)) ps)"

definition session_exec_all :: "storage_call set \<Rightarrow> db \<Rightarrow> exn + Polygon list" where
  "session_exec_all F d =
     (if Exec \<in> F then Inl (StorageError Exec) else Inr (order_by_created_at_desc (rows d)))"

section \<open>The service (app/polygon_service.py)\<close>

text \<open>
  Each operation takes the set \<open>F\<close> of storage calls that fail during it and the table,
  and returns its value with the table afterwards. The body under \<^verbatim>\<open>try:\<close> is the
  function suffixed \<open>_try\<close>: \<open>Inl e\<close> is the exception \<open>e\<close> leaving the body. The
  operation itself adds the handler \<^verbatim>\<open>except Exception\<close>.
\<close>

definition create_polygon_try ::
  "storage_call set \<Rightarrow> datetime \<Rightarrow> db \<Rightarrow> PolygonCreate \<Rightarrow> (exn + PolygonResponse option) \<times> db" where
  "create_polygon_try F now d polygon_data =
     (case get_session F of
        Inl e \<Rightarrow> (Inl e, d)
      | Inr _ \<Rightarrow>
          let polygon = \<lparr> Polygon.ident = None,
                          name = PolygonCreate.name polygon_data,
                          coordinates = PolygonCreate.coordinates polygon_data,
                          properties = PolygonCreate.properties polygon_data,
                          created_at = now,
                          updated_at = None \<rparr>
          in (case session_add_commit F d polygon of
                Inl e \<Rightarrow> (Inl e, d)
              | Inr (d', key) \<Rightarrow>
                  (case session_refresh F d' (Some key) of
                     Inl e \<Rightarrow> (Inl e, d')
                   | Inr polygon' \<Rightarrow>
                       (if Polygon.ident polygon' = None then (Inr None, d')
                        else (Inr (Some (from_polygon polygon')), d')))))"

definition create_polygon ::
  "storage_call set \<Rightarrow> datetime \<Rightarrow> db \<Rightarrow> PolygonCreate \<Rightarrow> PolygonResponse option \<times> db" where
  "create_polygon F now d polygon_data =
     (case create_polygon_try F now d polygon_data of
        (Inl e, d') \<Rightarrow> (None, d')
      | (Inr r, d') \<Rightarrow> (r, d'))"

definition get_polygon_try ::
  "storage_call set \<Rightarrow> db \<Rightarrow> int \<Rightarrow> (exn + PolygonResponse option) \<times> db" where
  "get_polygon_try F d polygon_id =
     (case get_session F of
        Inl e \<Rightarrow> (Inl e, d)
      | Inr _ \<Rightarrow>
          (case session_get F d polygon_id of
             Inl e \<Rightarrow> (Inl e, d)
           | Inr None \<Rightarrow> (Inr None, d)
           | Inr (Some polygon) \<Rightarrow> (Inr (Some (from_polygon polygon)), d)))"

definition get_polygon ::
  "storage_call set \<Rightarrow> db \<Rightarrow> int \<Rightarrow> PolygonResponse option \<times> db" where
  "get_polygon F d polygon_id =
     (case get_polygon_try F d polygon_id of
        (Inl e, d') \<Rightarrow> (None, d')
      | (Inr r, d') \<Rightarrow> (r, d'))"

definition list_polygons_try ::
  "storage_call set \<Rightarrow> db \<Rightarrow> (exn + PolygonListResponse) \<times> db" where
  "list_polygons_try F d =
     (case get_session F of
        Inl e \<Rightarrow> (Inl e, d)
      | Inr _ \<Rightarrow>
          (case session_exec_all F d of
             Inl e \<Rightarrow> (Inl e, d)
           | Inr ps \<Rightarrow>
               let polygon_responses = map from_polygon ps
               in (Inr \<lparr> polygons = polygon_responses,
                         total = int (length polygon_responses) \<rparr>, d)))"

definition list_polygons ::
  "storage_call set \<Rightarrow> db \<Rightarrow> PolygonListResponse \<times> db" where
  "list_polygons F d =
     (case list_polygons_try F d of
        (Inl e, d') \<Rightarrow> (\<lparr> polygons = [], total = 0 \<rparr>, d')
      | (Inr r, d') \<Rightarrow> (r, d'))"

definition update_polygon_try ::
  "storage_call set \<Rightarrow> datetime \<Rightarrow> db \<Rightarrow> int \<Rightarrow> PolygonUpdate \<Rightarrow> (exn + PolygonResponse option) \<times> db" where
  "update_polygon_try F now d polygon_id polygon_data =
     (case get_session F of
        Inl e \<Rightarrow> (Inl e, d)
      | Inr _ \<Rightarrow>
          (case session_get F d polygon_id of
             Inl e \<Rightarrow> (Inl e, d)
           | Inr None \<Rightarrow> (Inr None, d)
           | Inr (Some polygon0) \<Rightarrow>
               let polygon1 = (case PolygonUpdate.name polygon_data of
                                 Some n \<Rightarrow> polygon0\<lparr>Polygon.name := n\<rparr>
                               | None \<Rightarrow> polygon0);
                   polygon2 = (case PolygonUpdate.coordinates polygon_data of
                                 Some cs \<Rightarrow> polygon1\<lparr>Polygon.coordinates := cs\<rparr>
                               | None \<Rightarrow> polygon1);
                   polygon3 = (case PolygonUpdate.properties polygon_data of
                                 Some ps \<Rightarrow> polygon2\<lparr>Polygon.properties := ps\<rparr>
                               | None \<Rightarrow> polygon2);
                   polygon = update_timestamp now polygon3
               in (case session_update_commit F d polygon of
                     Inl e \<Rightarrow> (Inl e, d)
                   | Inr d' \<Rightarrow>
                       (case session_refresh F d' (Polygon.ident polygon) of
                          Inl e \<Rightarrow> (Inl e, d')
                        | Inr polygon' \<Rightarrow> (Inr (Some (from_polygon polygon')), d')))))"

definition update_polygon ::
  "storage_call set \<Rightarrow> datetime \<Rightarrow> db \<Rightarrow> int \<Rightarrow> PolygonUpdate \<Rightarrow> PolygonResponse option \<times> db" where
  "update_polygon F now d polygon_id polygon_data =
     (case update_polygon_try F now d polygon_id polygon_data of
        (Inl e, d') \<Rightarrow> (None, d')
      | (Inr r, d') \<Rightarrow> (r, d'))"

definition delete_polygon_try ::
  "storage_call set \<Rightarrow> db \<Rightarrow> int \<Rightarrow> (exn + bool) \<times> db" where
  "delete_polygon_try F d polygon_id =
     (case get_session F of
        Inl e \<Rightarrow> (Inl e, d)
      | Inr _ \<Rightarrow>
          (case session_get F d polygon_id of
             Inl e \<Rightarrow> (Inl e, d)
           | Inr None \<Rightarrow> (Inr False, d)
           | Inr (Some polygon) \<Rightarrow>
               (case session_delete_commit F d polygon of
                  Inl e \<Rightarrow> (Inl e, d)
                | Inr d' \<Rightarrow> (Inr True, d'))))"

definition delete_polygon ::
  "storage_call set \<Rightarrow> db \<Rightarrow> int \<Rightarrow> bool \<times> db" where
  "delete_polygon F d polygon_id =
     (case delete_polygon_try F d polygon_id of
        (Inl e, d') \<Rightarrow> (False, d')
      | (Inr r, d') \<Rightarrow> (r, d'))"


section \<open>Trimming (str.strip)\<close>

text \<open>
  \<^verbatim>\<open>str.isspace\<close> on one character, for the code points below 256, and \<^verbatim>\<open>str.strip()\<close>
  without argument, which removes leading and trailing whitespace. The service and the
  models never call it; the map page calls it before it builds a creation request.
\<close>

definition isspace :: "char \<Rightarrow> bool" where
  "isspace c \<longleftrightarrow> (of_char c :: nat) \<in> {9..13} \<union> {28..32} \<union> {133, 160}"

definition strip :: "string \<Rightarrow> string" where
  "strip s = rev (dropWhile isspace (rev (dropWhile isspace s)))"

section \<open>Sequences of service calls\<close>

text \<open>
  A caller holds the service object and calls its operations one after the other, each
  with its own clock reading and its own set of failing storage calls.
\<close>

datatype call =
    CreatePolygon "storage_call set" datetime PolygonCreate
  | GetPolygon "storage_call set" int
  | ListPolygons "storage_call set"
  | UpdatePolygon "storage_call set" datetime int PolygonUpdate
  | DeletePolygon "storage_call set" int

fun call_step :: "db \<Rightarrow> call \<Rightarrow> db" where
  "call_step d (CreatePolygon F now polygon_data) = snd (create_polygon F now d polygon_data)"
| "call_step d (GetPolygon F polygon_id) = snd (get_polygon F d polygon_id)"
| "call_step d (ListPolygons F) = snd (list_polygons F d)"
| "call_step d (UpdatePolygon F now polygon_id polygon_data) =
     snd (update_polygon F now d polygon_id polygon_data)"
| "call_step d (DeletePolygon F polygon_id) = snd (delete_polygon F d polygon_id)"

definition run_calls :: "db \<Rightarrow> call list \<Rightarrow> db" where
  "run_calls d cs = foldl call_step d cs"

text \<open>The request objects of a call pass the validation of their classes.\<close>

fun call_valid :: "call \<Rightarrow> bool" where
  "call_valid (CreatePolygon F now polygon_data) = PolygonCreate_valid polygon_data"
| "call_valid (UpdatePolygon F now polygon_id polygon_data) = PolygonUpdate_valid polygon_data"
| "call_valid _ = True"

text \<open>Creating one polygon per entry of a list, on a storage that does not fail.\<close>

fun create_many :: "db \<Rightarrow> (datetime \<times> PolygonCreate) list \<Rightarrow> db" where
  "create_many d [] = d"
| "create_many d ((now, polygon_data) # rest) =
     create_many (snd (create_polygon {} now d polygon_data)) rest"

section \<open>Well-formed tables\<close>

text \<open>
  Every row carries a positive key below the next auto-increment value, and no two rows
  share a key. The empty table is well formed and every service call keeps it so.
\<close>

fun key_ok :: "int \<Rightarrow> int option \<Rightarrow> bool" where
  "key_ok n None = False"
| "key_ok n (Some k) = (0 < k \<and> k < n)"

definition db_wf :: "db \<Rightarrow> bool" where
  "db_wf d \<longleftrightarrow>
     0 < next_id d \<and>
     list_all (\<lambda>p. key_ok (next_id d) (Polygon.ident p)) (rows d) \<and>
     distinct (map Polygon.ident (rows d))"

text \<open>
  The row an update writes, in the words of the specification: a supplied field takes
  the supplied value, an omitted one keeps its value, and \<^verbatim>\<open>updated_at\<close> is the clock
  reading. \<open>update_fields_eq\<close> below shows that the assignments of
  \<^verbatim>\<open>update_polygon\<close> build exactly this row.
\<close>

definition apply_update :: "datetime \<Rightarrow> PolygonUpdate \<Rightarrow> Polygon \<Rightarrow> Polygon" where
  "apply_update now u p =
     p\<lparr> Polygon.name := (case PolygonUpdate.name u of Some n \<Rightarrow> n | None \<Rightarrow> Polygon.name p),
        Polygon.coordinates :=
          (case PolygonUpdate.coordinates u of Some cs \<Rightarrow> cs | None \<Rightarrow> Polygon.coordinates p),
        Polygon.properties :=
          (case PolygonUpdate.properties u of Some ps \<Rightarrow> ps | None \<Rightarrow> Polygon.properties p),
        Polygon.updated_at := Some now \<rparr>"

text \<open>What the validation of the requests promises of a stored row.\<close>

definition row_ok :: "Polygon \<Rightarrow> bool" where
  "row_ok p \<longleftrightarrow> 1 \<le> length (Polygon.name p) \<and> length (Polygon.name p) \<le> 255"

section \<open>Test data\<close>

text \<open>
  The scenario of the specification: name "Test Area", one closed ring
  \<^verbatim>\<open>[[0,0],[1,0],[1,1],[0,0]]\<close> (the float 1.0 has the bit pattern \<^verbatim>\<open>0x3FF0000000000000\<close>),
  properties \<^verbatim>\<open>{color: "blue"}\<close>.
\<close>

definition test_area :: PolygonCreate where
  "test_area =
     \<lparr> PolygonCreate.name = ''Test Area'',
       coordinates = [[[0, 0], [0x3FF0000000000000, 0],
                       [0x3FF0000000000000, 0x3FF0000000000000], [0, 0]]],
       properties = [(''color'', JStr ''blue'')] \<rparr>"

definition blank_name :: PolygonCreate where
  "blank_name =
     \<lparr> PolygonCreate.name = ''   '',
       coordinates = [[[0, 0], [0x3FF0000000000000, 0],
                       [0x3FF0000000000000, 0x3FF0000000000000], [0, 0]]],
       properties = [] \<rparr>"

text \<open>
  A request whose properties hold a float (1250.5, bit pattern \<^verbatim>\<open>0x40938A0000000000\<close>),
  a string, a boolean and a list.
\<close>

definition park :: PolygonCreate where
  "park =
     \<lparr> PolygonCreate.name = ''Complex Polygon'',
       coordinates = [[[0, 0], [0x3FF0000000000000, 0],
                       [0x3FF0000000000000, 0x3FF0000000000000], [0, 0]]],
       properties = [(''area'', JFloat 0x40938A0000000000), (''type'', JStr ''park''),
                     (''test'', JBool True), (''tags'', JList [JStr ''green'', JInt 2])] \<rparr>"

text \<open>A creation request and an update with no ring at all.\<close>

definition no_rings :: PolygonCreate where
  "no_rings = \<lparr> PolygonCreate.name = ''A'', coordinates = [], properties = [] \<rparr>"

definition drop_rings :: PolygonUpdate where
  "drop_rings = \<lparr> PolygonUpdate.name = None, coordinates = Some [], properties = None \<rparr>"

definition rename_X :: PolygonUpdate where
  "rename_X = \<lparr> PolygonUpdate.name = Some ''X'', coordinates = None, properties = None \<rparr>"

definition no_fields :: PolygonUpdate where
  "no_fields = \<lparr> PolygonUpdate.name = None, coordinates = None, properties = None \<rparr>"

definition t0 :: datetime where
  "t0 = \<lparr> year = 2024, month = 1, day = 15, hour = 10, minute = 30, second = 0,
          microsecond = 0 \<rparr>"

definition t1 :: datetime where
  "t1 = \<lparr> year = 2024, month = 1, day = 15, hour = 10, minute = 30, second = 7,
          microsecond = 250 \<rparr>"

text \<open>The table after the scenario's polygon has been created at \<open>t0\<close>.\<close>

definition db1 :: db where
  "db1 = snd (create_polygon {} t0 empty_db test_area)"

section \<open>Auxiliary facts\<close>

lemmas storage_defs =
  get_session_def session_get_def session_add_commit_def session_update_commit_def
  session_delete_commit_def session_refresh_def session_exec_all_def

lemma find_snoc:
  "find P (xs @ [x]) =
     (case find P xs of Some y \<Rightarrow> Some y | None \<Rightarrow> if P x then Some x else None)"
  by (induction xs) auto

lemma find_ident:
  "find (\<lambda>q. Polygon.ident q = k) ps = Some p \<Longrightarrow> Polygon.ident p = k \<and> p \<in> set ps"
  by (induction ps) (auto split: if_splits)

lemma find_map_replace:
  assumes "find (\<lambda>q. Polygon.ident q = k) ps = Some p" and "Polygon.ident p' = k"
  shows "find (\<lambda>q. Polygon.ident q = k)
           (map (\<lambda>q. if Polygon.ident q = k then p' else q) ps) = Some p'"
  using assms by (induction ps) (auto split: if_splits)

lemma db_wf_empty: "db_wf empty_db"
  by (simp add: db_wf_def empty_db_def)

lemma db_wf_next_id_fresh:
  assumes "db_wf d"
  shows "find (\<lambda>p. Polygon.ident p = Some (next_id d)) (rows d) = None"
proof -
  have "\<not> (\<exists>p \<in> set (rows d). Polygon.ident p = Some (next_id d))"
    using assms by (auto simp: db_wf_def list_all_iff)
  then show ?thesis by (simp add: find_None_iff)
qed

subsection \<open>create\<close>

lemma create_polygon_ok:
  assumes "db_wf d" and "Connect \<notin> F" and "Commit \<notin> F" and "Refresh \<notin> F"
  shows "create_polygon F now d c =
    (Some \<lparr> PolygonResponse.ident = next_id d,
            name = PolygonCreate.name c,
            coordinates = PolygonCreate.coordinates c,
            properties = PolygonCreate.properties c,
            created_at = isoformat now,
            updated_at = None \<rparr>,
     d\<lparr> rows := rows d @ [\<lparr> Polygon.ident = Some (next_id d),
                             name = PolygonCreate.name c,
                             coordinates = PolygonCreate.coordinates c,
                             properties = PolygonCreate.properties c,
                             created_at = now,
                             updated_at = None \<rparr>],
        next_id := next_id d + 1 \<rparr>)"
  using assms db_wf_next_id_fresh[OF assms(1)]
  by (simp add: create_polygon_def create_polygon_try_def storage_defs find_snoc from_polygon_def)

text \<open>Whatever fails, create either leaves the table alone or appends one row.\<close>

lemma create_polygon_db:
  "snd (create_polygon F now d c) = d \<or>
   snd (create_polygon F now d c) =
     d\<lparr> rows := rows d @ [\<lparr> Polygon.ident = Some (next_id d),
                             name = PolygonCreate.name c,
                             coordinates = PolygonCreate.coordinates c,
                             properties = PolygonCreate.properties c,
                             created_at = now,
                             updated_at = None \<rparr>],
        next_id := next_id d + 1 \<rparr>"
  by (simp add: create_polygon_def create_polygon_try_def storage_defs find_snoc
      split: option.splits)

lemma create_polygon_some_no_fault:
  assumes "fst (create_polygon F now d c) = Some r"
  shows "Connect \<notin> F \<and> Commit \<notin> F \<and> Refresh \<notin> F"
  using assms
  by (auto simp: create_polygon_def create_polygon_try_def storage_defs
      split: if_splits sum.splits prod.splits option.splits)

subsection \<open>update\<close>

lemma update_fields_eq:
  "(let polygon1 = (case PolygonUpdate.name u of
                      Some n \<Rightarrow> p\<lparr>Polygon.name := n\<rparr>
                    | None \<Rightarrow> p);
        polygon2 = (case PolygonUpdate.coordinates u of
                      Some cs \<Rightarrow> polygon1\<lparr>Polygon.coordinates := cs\<rparr>
                    | None \<Rightarrow> polygon1);
        polygon3 = (case PolygonUpdate.properties u of
                      Some ps \<Rightarrow> polygon2\<lparr>Polygon.properties := ps\<rparr>
                    | None \<Rightarrow> polygon2);
        polygon = update_timestamp now polygon3
    in G polygon) = G (apply_update now u p)"
  by (simp add: Let_def apply_update_def update_timestamp_def split: option.splits)

lemma update_polygon_try_eq:
  "update_polygon_try F now d polygon_id u =
     (case get_session F of
        Inl e \<Rightarrow> (Inl e, d)
      | Inr _ \<Rightarrow>
          (case session_get F d polygon_id of
             Inl e \<Rightarrow> (Inl e, d)
           | Inr None \<Rightarrow> (Inr None, d)
           | Inr (Some p) \<Rightarrow>
               (case session_update_commit F d (apply_update now u p) of
                  Inl e \<Rightarrow> (Inl e, d)
                | Inr d' \<Rightarrow>
                    (case session_refresh F d' (Polygon.ident (apply_update now u p)) of
                       Inl e \<Rightarrow> (Inl e, d')
                     | Inr polygon' \<Rightarrow> (Inr (Some (from_polygon polygon')), d')))))"
  unfolding update_polygon_try_def update_fields_eq ..

lemma update_polygon_ok:
  assumes "find (\<lambda>q. Polygon.ident q = Some polygon_id) (rows d) = Some p"
    and "Connect \<notin> F" and "Get \<notin> F" and "Commit \<notin> F" and "Refresh \<notin> F"
  shows "update_polygon F now d polygon_id u =
    (Some (from_polygon (apply_update now u p)),
     d\<lparr> rows := map (\<lambda>q. if Polygon.ident q = Some polygon_id
                          then apply_update now u p else q) (rows d) \<rparr>)"
proof -
  have "Polygon.ident p = Some polygon_id"
    using find_ident[OF assms(1)] by simp
  then have id': "Polygon.ident (apply_update now u p) = Some polygon_id"
    by (simp add: apply_update_def)
  note fr = find_map_replace[OF assms(1) id']
  show ?thesis
    using assms id' fr
    by (simp add: update_polygon_def update_polygon_try_eq storage_defs)
qed

text \<open>Whatever fails, update either leaves the table alone or overwrites the row.\<close>

lemma update_polygon_db:
  "snd (update_polygon F now d polygon_id u) = d \<or>
   (\<exists>p. find (\<lambda>q. Polygon.ident q = Some polygon_id) (rows d) = Some p \<and>
        snd (update_polygon F now d polygon_id u) =
          d\<lparr> rows := map (\<lambda>q. if Polygon.ident q = Some polygon_id
                               then apply_update now u p else q) (rows d) \<rparr>)"
proof (cases "find (\<lambda>q. Polygon.ident q = Some polygon_id) (rows d)")
  case None
  then show ?thesis
    by (simp add: update_polygon_def update_polygon_try_eq storage_defs)
next
  case (Some p)
  then have "Polygon.ident p = Some polygon_id"
    using find_ident by blast
  then have id': "Polygon.ident (apply_update now u p) = Some polygon_id"
    by (simp add: apply_update_def)
  show ?thesis
    using Some id' find_map_replace[OF Some id']
    by (simp add: update_polygon_def update_polygon_try_eq storage_defs)
qed

subsection \<open>get and delete\<close>

lemma get_polygon_found:
  assumes "find (\<lambda>q. Polygon.ident q = Some polygon_id) (rows d) = Some p"
    and "Connect \<notin> F" and "Get \<notin> F"
  shows "get_polygon F d polygon_id = (Some (from_polygon p), d)"
  using assms by (simp add: get_polygon_def get_polygon_try_def storage_defs)

lemma get_polygon_absent:
  assumes "find (\<lambda>q. Polygon.ident q = Some polygon_id) (rows d) = None"
  shows "get_polygon F d polygon_id = (None, d)"
  using assms by (simp add: get_polygon_def get_polygon_try_def storage_defs)

lemma update_polygon_absent:
  assumes "find (\<lambda>q. Polygon.ident q = Some polygon_id) (rows d) = None"
  shows "update_polygon F now d polygon_id u = (None, d)"
  using assms by (simp add: update_polygon_def update_polygon_try_eq storage_defs)

lemma delete_polygon_absent:
  assumes "find (\<lambda>q. Polygon.ident q = Some polygon_id) (rows d) = None"
  shows "delete_polygon F d polygon_id = (False, d)"
  using assms by (simp add: delete_polygon_def delete_polygon_try_def storage_defs)

lemma delete_polygon_ok:
  assumes "find (\<lambda>q. Polygon.ident q = Some polygon_id) (rows d) = Some p"
    and "Connect \<notin> F" and "Get \<notin> F" and "Commit \<notin> F"
  shows "delete_polygon F d polygon_id =
    (True, d\<lparr> rows := filter (\<lambda>q. Polygon.ident q \<noteq> Some polygon_id) (rows d) \<rparr>)"
  using assms find_ident[OF assms(1)]
  by (simp add: delete_polygon_def delete_polygon_try_def storage_defs)

lemma delete_polygon_db:
  "snd (delete_polygon F d polygon_id) = d \<or>
   snd (delete_polygon F d polygon_id) =
     d\<lparr> rows := filter (\<lambda>q. Polygon.ident q \<noteq> Some polygon_id) (rows d) \<rparr>"
proof (cases "find (\<lambda>q. Polygon.ident q = Some polygon_id) (rows d)")
  case None
  then show ?thesis by (simp add: delete_polygon_absent)
next
  case (Some p)
  then show ?thesis
    using find_ident[OF Some]
    by (simp add: delete_polygon_def delete_polygon_try_def storage_defs)
qed

lemma get_polygon_db: "snd (get_polygon F d polygon_id) = d"
  by (simp add: get_polygon_def get_polygon_try_def storage_defs split: option.splits)

lemma list_polygons_db: "snd (list_polygons F d) = d"
  by (simp add: list_polygons_def list_polygons_try_def storage_defs Let_def)

subsection \<open>list\<close>

lemma order_by_created_at_desc_mset: "mset (order_by_created_at_desc ps) = mset ps"
  by (simp add: order_by_created_at_desc_def)

lemma order_by_created_at_desc_sorted:
  "sorted_wrt (\<lambda>a b. datetime_key (Polygon.created_at b) \<le> datetime_key (Polygon.created_at a))
     (order_by_created_at_desc ps)"
proof -
  have "sorted (map (\<lambda>p. datetime_key (Polygon.created_at p))
          (sort_key (\<lambda>p. datetime_key (Polygon.created_at p)) ps))"
    by (rule sorted_sort_key)
  then show ?thesis
    by (simp add: order_by_created_at_desc_def sorted_map sorted_wrt_rev)
qed

lemma list_polygons_ok:
  assumes "Connect \<notin> F" and "Exec \<notin> F"
  shows "list_polygons F d =
    (\<lparr> polygons = map from_polygon (order_by_created_at_desc (rows d)),
       total = int (length (rows d)) \<rparr>, d)"
proof -
  have "length (order_by_created_at_desc (rows d)) = length (rows d)"
    by (simp add: order_by_created_at_desc_def)
  then show ?thesis
    using assms by (simp add: list_polygons_def list_polygons_try_def storage_defs Let_def)
qed

subsection \<open>Well-formedness is kept by every call\<close>

lemma key_ok_mono: "key_ok n k \<Longrightarrow> key_ok (n + 1) k"
  by (cases k) auto

lemma db_wf_append:
  assumes "db_wf d" and "Polygon.ident q = Some (next_id d)"
  shows "db_wf (d\<lparr> rows := rows d @ [q], next_id := next_id d + 1 \<rparr>)"
proof -
  have "\<not> (\<exists>p \<in> set (rows d). Polygon.ident p = Some (next_id d))"
    using db_wf_next_id_fresh[OF assms(1)] by (simp add: find_None_iff)
  then have "Some (next_id d) \<notin> Polygon.ident ` set (rows d)"
    by force
  then show ?thesis
    using assms by (auto simp: db_wf_def list_all_iff key_ok_mono)
qed

lemma db_wf_replace:
  assumes "db_wf d" and "p \<in> set (rows d)" and "Polygon.ident p' = Polygon.ident p"
    and "Polygon.ident p = Some i"
  shows "db_wf (d\<lparr> rows := map (\<lambda>q. if Polygon.ident q = Some i then p' else q) (rows d) \<rparr>)"
proof -
  let ?rs = "map (\<lambda>q. if Polygon.ident q = Some i then p' else q) (rows d)"
  have same: "map Polygon.ident ?rs = map Polygon.ident (rows d)"
    using assms(3,4) by (induction "rows d") auto
  have "list_all (key_ok (next_id d)) (map Polygon.ident (rows d))"
    using assms(1) by (simp add: db_wf_def list_all_iff)
  then have "list_all (key_ok (next_id d)) (map Polygon.ident ?rs)"
    unfolding same .
  then have "list_all (key_ok (next_id d) \<circ> Polygon.ident) ?rs"
    by (simp only: list.pred_map)
  then have bounds: "list_all (\<lambda>p. key_ok (next_id d) (Polygon.ident p)) ?rs"
    by (simp only: comp_def)
  have "distinct (map Polygon.ident ?rs)"
    using assms(1) unfolding same by (simp add: db_wf_def)
  then show ?thesis
    using assms(1) bounds unfolding db_wf_def by simp
qed

lemma db_wf_filter:
  assumes "db_wf d"
  shows "db_wf (d\<lparr> rows := filter P (rows d) \<rparr>)"
  using assms by (auto simp: db_wf_def list_all_iff distinct_map_filter)

lemma apply_update_ident: "Polygon.ident (apply_update now u p) = Polygon.ident p"
  by (simp add: apply_update_def)

lemma db_wf_call_step:
  assumes "db_wf d"
  shows "db_wf (call_step d c)"
proof (cases c)
  case (CreatePolygon F now pc)
  have "db_wf (d\<lparr> rows := rows d @ [\<lparr> Polygon.ident = Some (next_id d),
                             name = PolygonCreate.name pc,
                             coordinates = PolygonCreate.coordinates pc,
                             properties = PolygonCreate.properties pc,
                             created_at = now,
                             updated_at = None \<rparr>],
        next_id := next_id d + 1 \<rparr>)"
    by (rule db_wf_append[OF assms]) simp
  then show ?thesis
    using create_polygon_db[of F now d pc] assms CreatePolygon
    by auto
next
  case (GetPolygon F i)
  then show ?thesis using assms by (simp add: get_polygon_db)
next
  case (ListPolygons F)
  then show ?thesis using assms by (simp add: list_polygons_db)
next
  case (UpdatePolygon F now i u)
  show ?thesis
    using update_polygon_db[of F now d i u]
  proof
    assume "snd (update_polygon F now d i u) = d"
    then show ?thesis using assms UpdatePolygon by simp
  next
    assume "\<exists>p. find (\<lambda>q. Polygon.ident q = Some i) (rows d) = Some p \<and>
        snd (update_polygon F now d i u) =
          d\<lparr> rows := map (\<lambda>q. if Polygon.ident q = Some i
                               then apply_update now u p else q) (rows d) \<rparr>"
    then obtain p where p: "find (\<lambda>q. Polygon.ident q = Some i) (rows d) = Some p"
      and eq: "snd (update_polygon F now d i u) =
          d\<lparr> rows := map (\<lambda>q. if Polygon.ident q = Some i
                               then apply_update now u p else q) (rows d) \<rparr>"
      by blast
    have "Polygon.ident p = Some i" and "p \<in> set (rows d)"
      using find_ident[OF p] by simp_all
    then show ?thesis
      using db_wf_replace[OF assms, of p "apply_update now u p" i] eq UpdatePolygon
      by (simp add: apply_update_ident)
  qed
next
  case (DeletePolygon F i)
  have "db_wf (d\<lparr> rows := filter (\<lambda>q. Polygon.ident q \<noteq> Some i) (rows d) \<rparr>)"
    by (rule db_wf_filter[OF assms])
  then show ?thesis
    using delete_polygon_db[of F d i] assms DeletePolygon
    by auto
qed

lemma db_wf_run_calls:
  assumes "db_wf d"
  shows "db_wf (run_calls d cs)"
  using assms unfolding run_calls_def
  by (induction cs arbitrary: d) (simp_all add: db_wf_call_step)

subsection \<open>What the stored rows satisfy\<close>

lemma row_ok_apply_update:
  assumes "PolygonUpdate_valid u" and "row_ok p"
  shows "row_ok (apply_update now u p)"
  using assms
  by (auto simp: PolygonUpdate_valid_def row_ok_def apply_update_def split: option.splits)

lemma row_ok_call_step:
  assumes "call_valid c" and "list_all row_ok (rows d)"
  shows "list_all row_ok (rows (call_step d c))"
proof (cases c)
  case (CreatePolygon F now pc)
  then have "PolygonCreate_valid pc" using assms(1) by simp
  then show ?thesis
    using create_polygon_db[of F now d pc] assms(2) CreatePolygon
    by (auto simp: PolygonCreate_valid_def row_ok_def)
next
  case (GetPolygon F i)
  then show ?thesis using assms by (simp add: get_polygon_db)
next
  case (ListPolygons F)
  then show ?thesis using assms by (simp add: list_polygons_db)
next
  case (UpdatePolygon F now i u)
  then have v: "PolygonUpdate_valid u" using assms(1) by simp
  show ?thesis
    using update_polygon_db[of F now d i u]
  proof
    assume "snd (update_polygon F now d i u) = d"
    then show ?thesis using assms UpdatePolygon by simp
  next
    assume "\<exists>p. find (\<lambda>q. Polygon.ident q = Some i) (rows d) = Some p \<and>
        snd (update_polygon F now d i u) =
          d\<lparr> rows := map (\<lambda>q. if Polygon.ident q = Some i
                               then apply_update now u p else q) (rows d) \<rparr>"
    then obtain p where p: "find (\<lambda>q. Polygon.ident q = Some i) (rows d) = Some p"
      and eq: "snd (update_polygon F now d i u) =
          d\<lparr> rows := map (\<lambda>q. if Polygon.ident q = Some i
                               then apply_update now u p else q) (rows d) \<rparr>"
      by blast
    have "p \<in> set (rows d)"
      using find_ident[OF p] by simp
    then have "row_ok p"
      using assms(2) by (simp add: list_all_iff)
    then have "row_ok (apply_update now u p)"
      using v by (rule row_ok_apply_update[rotated])
    then show ?thesis
      using assms(2) eq UpdatePolygon by (auto simp: list_all_iff)
  qed
next
  case (DeletePolygon F i)
  show ?thesis
    using delete_polygon_db[of F d i] assms(2) DeletePolygon
    by (auto simp: list_all_iff)
qed

lemma row_ok_run_calls:
  assumes "list_all call_valid cs" and "list_all row_ok (rows d)"
  shows "list_all row_ok (rows (run_calls d cs))"
  using assms unfolding run_calls_def
  by (induction cs arbitrary: d) (simp_all add: row_ok_call_step)


lemma create_many_rows:
  assumes "db_wf d"
  shows "db_wf (create_many d cs) \<and>
         length (rows (create_many d cs)) = length (rows d) + length cs"
  using assms
proof (induction cs arbitrary: d)
  case Nil
  then show ?case by simp
next
  case (Cons a cs)
  obtain now c where a: "a = (now, c)" by (cases a)
  let ?d' = "snd (create_polygon {} now d c)"
  have eq: "?d' = d\<lparr> rows := rows d @ [\<lparr> Polygon.ident = Some (next_id d),
                             name = PolygonCreate.name c,
                             coordinates = PolygonCreate.coordinates c,
                             properties = PolygonCreate.properties c,
                             created_at = now,
                             updated_at = None \<rparr>],
        next_id := next_id d + 1 \<rparr>"
    using create_polygon_ok[OF Cons.prems, of "{}" now c] by simp
  have wf: "db_wf ?d'"
    unfolding eq by (rule db_wf_append[OF Cons.prems]) simp
  have len: "length (rows ?d') = length (rows d) + 1"
    unfolding eq by simp
  show ?case
    using Cons.IH[OF wf] len a by simp
qed

section \<open>The table of the scenario\<close>

lemma db1_eq:
  "db1 = \<lparr> rows = [\<lparr> Polygon.ident = Some 1,
                      name = ''Test Area'',
                      coordinates = [[[0, 0], [0x3FF0000000000000, 0],
                                      [0x3FF0000000000000, 0x3FF0000000000000], [0, 0]]],
                      properties = [(''color'', JStr ''blue'')],
                      created_at = t0,
                      updated_at = None \<rparr>],
           next_id = 2 \<rparr>"
  by (simp add: db1_def create_polygon_def create_polygon_try_def storage_defs empty_db_def
      test_area_def)

lemma db1_run: "db1 = run_calls empty_db [CreatePolygon {} t0 test_area]"
  by (simp add: db1_def run_calls_def)

section \<open>Claims\<close>

subsection \<open>C1: storage errors stay inside the operation\<close>

lemma create_polygon_contained:
  assumes "fst (create_polygon_try F now d c) = Inl e"
  shows "fst (create_polygon F now d c) = None \<and>
         (e \<noteq> StorageError Refresh \<longrightarrow> snd (create_polygon F now d c) = d) \<and>
         (e = StorageError Refresh \<longrightarrow>
            length (rows (snd (create_polygon F now d c))) = length (rows d) + 1)"
  using assms
  by (auto simp: create_polygon_def create_polygon_try_def storage_defs find_snoc
      split: if_splits option.splits)

lemma get_polygon_contained:
  assumes "fst (get_polygon_try F d i) = Inl e"
  shows "get_polygon F d i = (None, d)"
  using assms
  by (auto simp: get_polygon_def get_polygon_try_def storage_defs
      split: if_splits option.splits)

lemma list_polygons_contained:
  assumes "fst (list_polygons_try F d) = Inl e"
  shows "list_polygons F d = (\<lparr> polygons = [], total = 0 \<rparr>, d)"
  using assms
  by (auto simp: list_polygons_def list_polygons_try_def storage_defs Let_def
      split: if_splits)

lemma update_polygon_contained:
  assumes "fst (update_polygon_try F now d i u) = Inl e"
  shows "fst (update_polygon F now d i u) = None \<and>
         (e \<noteq> StorageError Refresh \<longrightarrow> snd (update_polygon F now d i u) = d) \<and>
         (e = StorageError Refresh \<longrightarrow>
            (\<exists>p. session_get {} d i = Inr (Some p) \<and>
                 session_get {} (snd (update_polygon F now d i u)) i =
                   Inr (Some (apply_update now u p))))"
proof (cases "find (\<lambda>q. Polygon.ident q = Some i) (rows d)")
  case None
  then show ?thesis
    using assms
    by (auto simp: update_polygon_def update_polygon_try_eq storage_defs split: if_splits)
next
  case (Some p)
  then have "Polygon.ident p = Some i"
    using find_ident by blast
  then have id': "Polygon.ident (apply_update now u p) = Some i"
    by (simp add: apply_update_ident)
  show ?thesis
    using assms Some id' find_map_replace[OF Some id']
    by (auto simp: update_polygon_def update_polygon_try_eq storage_defs split: if_splits)
qed

lemma delete_polygon_contained:
  assumes "fst (delete_polygon_try F d i) = Inl e"
  shows "delete_polygon F d i = (False, d)"
  using assms
  by (auto simp: delete_polygon_def delete_polygon_try_def storage_defs
      split: if_splits option.splits)

text \<open>
  C1, as amended. Whenever a storage call raises inside one of the five operations, the
  operation returns its unsuccessful value (None for create, get and update, False for
  delete, the empty list response for list): the exception does not leave it. The table
  is as it was before the operation when the error is raised by any call up to and
  including the commit; that is always so for get, list and delete. When the error is
  raised by the refresh that follows the commit, the committed write stays: create has
  added one row, and update has written the updated row.
\<close>

theorem storage_errors_are_contained:
  "(fst (create_polygon_try Fc nowc d c) = Inl ec \<longrightarrow>
      fst (create_polygon Fc nowc d c) = None \<and>
      (ec \<noteq> StorageError Refresh \<longrightarrow> snd (create_polygon Fc nowc d c) = d) \<and>
      (ec = StorageError Refresh \<longrightarrow>
         length (rows (snd (create_polygon Fc nowc d c))) = length (rows d) + 1)) \<and>
   (fst (get_polygon_try Fg d ig) = Inl eg \<longrightarrow> get_polygon Fg d ig = (None, d)) \<and>
   (fst (list_polygons_try Fl d) = Inl el \<longrightarrow>
      list_polygons Fl d = (\<lparr> polygons = [], total = 0 \<rparr>, d)) \<and>
   (fst (update_polygon_try Fu nowu d iu u) = Inl eu \<longrightarrow>
      fst (update_polygon Fu nowu d iu u) = None \<and>
      (eu \<noteq> StorageError Refresh \<longrightarrow> snd (update_polygon Fu nowu d iu u) = d) \<and>
      (eu = StorageError Refresh \<longrightarrow>
         (\<exists>p. session_get {} d iu = Inr (Some p) \<and>
              session_get {} (snd (update_polygon Fu nowu d iu u)) iu =
                Inr (Some (apply_update nowu u p))))) \<and>
   (fst (delete_polygon_try Fd d idel) = Inl ed \<longrightarrow> delete_polygon Fd d idel = (False, d))"
proof -
  have "fst (create_polygon_try Fc nowc d c) = Inl ec \<longrightarrow>
      fst (create_polygon Fc nowc d c) = None \<and>
      (ec \<noteq> StorageError Refresh \<longrightarrow> snd (create_polygon Fc nowc d c) = d) \<and>
      (ec = StorageError Refresh \<longrightarrow>
         length (rows (snd (create_polygon Fc nowc d c))) = length (rows d) + 1)"
    using create_polygon_contained[of Fc nowc d c ec] by (rule impI)
  moreover have "fst (get_polygon_try Fg d ig) = Inl eg \<longrightarrow> get_polygon Fg d ig = (None, d)"
    using get_polygon_contained[of Fg d ig eg] by (rule impI)
  moreover have "fst (list_polygons_try Fl d) = Inl el \<longrightarrow>
      list_polygons Fl d = (\<lparr> polygons = [], total = 0 \<rparr>, d)"
    using list_polygons_contained[of Fl d el] by (rule impI)
  moreover have "fst (update_polygon_try Fu nowu d iu u) = Inl eu \<longrightarrow>
      fst (update_polygon Fu nowu d iu u) = None \<and>
      (eu \<noteq> StorageError Refresh \<longrightarrow> snd (update_polygon Fu nowu d iu u) = d) \<and>
      (eu = StorageError Refresh \<longrightarrow>
         (\<exists>p. session_get {} d iu = Inr (Some p) \<and>
              session_get {} (snd (update_polygon Fu nowu d iu u)) iu =
                Inr (Some (apply_update nowu u p))))"
    using update_polygon_contained[of Fu nowu d iu u eu] by (rule impI)
  moreover have "fst (delete_polygon_try Fd d idel) = Inl ed \<longrightarrow>
      delete_polygon Fd d idel = (False, d)"
    using delete_polygon_contained[of Fd d idel ed] by (rule impI)
  ultimately show ?thesis
    by (intro conjI)
qed

text \<open>
  On the table holding the scenario's polygon: a commit that fails in create, update and
  delete, a lookup that fails in get, a query that fails in list.
\<close>

theorem storage_errors_are_contained_witness:
  "fst (create_polygon_try {Commit} t1 db1 test_area) = Inl (StorageError Commit) \<and>
   create_polygon {Commit} t1 db1 test_area = (None, db1) \<and>
   fst (get_polygon_try {Get} db1 1) = Inl (StorageError Get) \<and>
   get_polygon {Get} db1 1 = (None, db1) \<and>
   fst (list_polygons_try {Exec} db1) = Inl (StorageError Exec) \<and>
   list_polygons {Exec} db1 = (\<lparr> polygons = [], total = 0 \<rparr>, db1) \<and>
   fst (update_polygon_try {Commit} t1 db1 1 rename_X) = Inl (StorageError Commit) \<and>
   update_polygon {Commit} t1 db1 1 rename_X = (None, db1) \<and>
   fst (delete_polygon_try {Commit} db1 1) = Inl (StorageError Commit) \<and>
   delete_polygon {Commit} db1 1 = (False, db1)"
proof -
  have h1: "fst (create_polygon_try {Commit} t1 db1 test_area) = Inl (StorageError Commit)"
    by (simp add: create_polygon_try_def storage_defs)
  have h2: "fst (get_polygon_try {Get} db1 1) = Inl (StorageError Get)"
    by (simp add: get_polygon_try_def storage_defs)
  have h3: "fst (list_polygons_try {Exec} db1) = Inl (StorageError Exec)"
    by (simp add: list_polygons_try_def storage_defs)
  have h4: "fst (update_polygon_try {Commit} t1 db1 1 rename_X) = Inl (StorageError Commit)"
    by (simp add: update_polygon_try_eq storage_defs db1_eq)
  have h5: "fst (delete_polygon_try {Commit} db1 1) = Inl (StorageError Commit)"
    by (simp add: delete_polygon_try_def storage_defs db1_eq)
  show ?thesis
    using h1 h2 h3 h4 h5
      storage_errors_are_contained[where Fc = "{Commit}" and nowc = t1 and d = db1
        and c = test_area and ec = "StorageError Commit"
        and Fg = "{Get}" and ig = 1 and eg = "StorageError Get"
        and Fl = "{Exec}" and el = "StorageError Exec"
        and Fu = "{Commit}" and nowu = t1 and iu = 1 and u = rename_X
        and eu = "StorageError Commit"
        and Fd = "{Commit}" and idel = 1 and ed = "StorageError Commit"]
    by (simp add: prod_eq_iff)
qed

text \<open>
  C1 as stated fails: create on the empty table, with the scenario's request, when the
  refresh after the commit raises. The exception is caught and create returns None, but
  the row has been committed: the table is no longer the empty one.
\<close>

theorem create_refresh_error_keeps_row:
  "fst (create_polygon_try {Refresh} t0 empty_db test_area) = Inl (StorageError Refresh) \<and>
   fst (create_polygon {Refresh} t0 empty_db test_area) = None \<and>
   snd (create_polygon {Refresh} t0 empty_db test_area) \<noteq> empty_db \<and>
   snd (create_polygon {Refresh} t0 empty_db test_area) = db1"
  by (simp add: db1_eq create_polygon_def create_polygon_try_def storage_defs empty_db_def
      test_area_def)


subsection \<open>C2: an update changes only the supplied fields\<close>

text \<open>
  C2. For a stored polygon \<open>p\<close> with identifier \<open>polygon_id\<close> and an update on a storage
  that raises nothing, the stored row becomes \<open>p\<close> with each supplied field replaced by
  the supplied value and \<^verbatim>\<open>updated_at\<close> set to the clock reading: the identifier,
  \<^verbatim>\<open>created_at\<close> and every omitted field keep their values, every other row is
  untouched, and the response is the rendering of that row. With only the name supplied,
  only \<^verbatim>\<open>name\<close> and \<^verbatim>\<open>updated_at\<close> change.
\<close>

theorem update_changes_only_supplied_fields:
  assumes "session_get {} d polygon_id = Inr (Some p)"
    and "Connect \<notin> F" and "Get \<notin> F" and "Commit \<notin> F" and "Refresh \<notin> F"
  shows "\<exists>p'. update_polygon F now d polygon_id u =
           (Some (from_polygon p'),
            d\<lparr> rows := map (\<lambda>q. if Polygon.ident q = Some polygon_id then p' else q)
                            (rows d) \<rparr>) \<and>
         session_get {} (snd (update_polygon F now d polygon_id u)) polygon_id =
           Inr (Some p') \<and>
         Polygon.ident p' = Polygon.ident p \<and>
         Polygon.created_at p' = Polygon.created_at p \<and>
         Polygon.name p' =
           (case PolygonUpdate.name u of Some n \<Rightarrow> n | None \<Rightarrow> Polygon.name p) \<and>
         Polygon.coordinates p' =
           (case PolygonUpdate.coordinates u of Some cs \<Rightarrow> cs
            | None \<Rightarrow> Polygon.coordinates p) \<and>
         Polygon.properties p' =
           (case PolygonUpdate.properties u of Some ps \<Rightarrow> ps
            | None \<Rightarrow> Polygon.properties p) \<and>
         Polygon.updated_at p' = Some now"
proof -
  have f: "find (\<lambda>q. Polygon.ident q = Some polygon_id) (rows d) = Some p"
    using assms(1) by (simp add: session_get_def)
  then have "Polygon.ident p = Some polygon_id"
    using find_ident by blast
  then have id': "Polygon.ident (apply_update now u p) = Some polygon_id"
    by (simp add: apply_update_ident)
  have upd: "update_polygon F now d polygon_id u =
      (Some (from_polygon (apply_update now u p)),
       d\<lparr> rows := map (\<lambda>q. if Polygon.ident q = Some polygon_id
                            then apply_update now u p else q) (rows d) \<rparr>)"
    using update_polygon_ok[OF f assms(2-5)] .
  have get: "session_get {} (snd (update_polygon F now d polygon_id u)) polygon_id =
      Inr (Some (apply_update now u p))"
    unfolding upd using find_map_replace[OF f id'] by (simp add: session_get_def)
  have fields: "Polygon.ident (apply_update now u p) = Polygon.ident p \<and>
      Polygon.created_at (apply_update now u p) = Polygon.created_at p \<and>
      Polygon.name (apply_update now u p) =
        (case PolygonUpdate.name u of Some n \<Rightarrow> n | None \<Rightarrow> Polygon.name p) \<and>
      Polygon.coordinates (apply_update now u p) =
        (case PolygonUpdate.coordinates u of Some cs \<Rightarrow> cs
         | None \<Rightarrow> Polygon.coordinates p) \<and>
      Polygon.properties (apply_update now u p) =
        (case PolygonUpdate.properties u of Some ps \<Rightarrow> ps
         | None \<Rightarrow> Polygon.properties p) \<and>
      Polygon.updated_at (apply_update now u p) = Some now"
    by (simp add: apply_update_def)
  show ?thesis
    using upd get fields by blast
qed

text \<open>The scenario's polygon renamed to "X" at \<open>t1\<close>.\<close>

theorem update_changes_only_supplied_fields_witness:
  "session_get {} db1 1 = Inr (Some (hd (rows db1))) \<and>
   Connect \<notin> {} \<and> Get \<notin> {} \<and> Commit \<notin> {} \<and> Refresh \<notin> {} \<and>
   (\<exists>p'. update_polygon {} t1 db1 1 rename_X =
           (Some (from_polygon p'),
            db1\<lparr> rows := map (\<lambda>q. if Polygon.ident q = Some 1 then p' else q)
                              (rows db1) \<rparr>) \<and>
         session_get {} (snd (update_polygon {} t1 db1 1 rename_X)) 1 = Inr (Some p') \<and>
         Polygon.ident p' = Polygon.ident (hd (rows db1)) \<and>
         Polygon.created_at p' = Polygon.created_at (hd (rows db1)) \<and>
         Polygon.name p' = ''X'' \<and>
         Polygon.coordinates p' = Polygon.coordinates (hd (rows db1)) \<and>
         Polygon.properties p' = Polygon.properties (hd (rows db1)) \<and>
         Polygon.updated_at p' = Some t1)"
proof -
  have h: "session_get {} db1 1 = Inr (Some (hd (rows db1)))"
    by (simp add: session_get_def db1_eq)
  have e: "(Connect::storage_call) \<notin> {}" "(Get::storage_call) \<notin> {}"
    "(Commit::storage_call) \<notin> {}" "(Refresh::storage_call) \<notin> {}"
    by simp_all
  show ?thesis
    using h update_changes_only_supplied_fields[OF h e, of t1 rename_X]
    by (simp add: rename_X_def)
qed

subsection \<open>C10: an update that supplies no field\<close>

text \<open>
  C10. An update that supplies no field, on an existing identifier and a storage that
  raises nothing, succeeds: it returns the polygon, whose name, coordinates and
  properties are those stored before, and it still sets \<^verbatim>\<open>updated_at\<close> to the clock
  reading, in the stored row and in the response.
\<close>

theorem update_without_fields_sets_updated_at:
  assumes "session_get {} d polygon_id = Inr (Some p)"
    and "Connect \<notin> F" and "Get \<notin> F" and "Commit \<notin> F" and "Refresh \<notin> F"
  shows "update_polygon F now d polygon_id
           \<lparr> PolygonUpdate.name = None, coordinates = None, properties = None \<rparr> =
           (Some ((from_polygon p)\<lparr> PolygonResponse.updated_at := Some (isoformat now) \<rparr>),
            d\<lparr> rows := map (\<lambda>q. if Polygon.ident q = Some polygon_id
                                 then p\<lparr> Polygon.updated_at := Some now \<rparr> else q)
                            (rows d) \<rparr>)"
proof -
  have f: "find (\<lambda>q. Polygon.ident q = Some polygon_id) (rows d) = Some p"
    using assms(1) by (simp add: session_get_def)
  have a: "apply_update now \<lparr> PolygonUpdate.name = None, coordinates = None,
                              properties = None \<rparr> p = p\<lparr> Polygon.updated_at := Some now \<rparr>"
    by (simp add: apply_update_def)
  have r: "from_polygon (p\<lparr> Polygon.updated_at := Some now \<rparr>) =
           (from_polygon p)\<lparr> PolygonResponse.updated_at := Some (isoformat now) \<rparr>"
    by (simp add: from_polygon_def)
  show ?thesis
    using update_polygon_ok[OF f assms(2-5), of now
        "\<lparr> PolygonUpdate.name = None, coordinates = None, properties = None \<rparr>"]
    unfolding a r .
qed

text \<open>The scenario's polygon updated at \<open>t1\<close> with no field.\<close>

theorem update_without_fields_sets_updated_at_witness:
  "session_get {} db1 1 = Inr (Some (hd (rows db1))) \<and>
   Connect \<notin> {} \<and> Get \<notin> {} \<and> Commit \<notin> {} \<and> Refresh \<notin> {} \<and>
   fst (update_polygon {} t1 db1 1 no_fields) =
     Some \<lparr> PolygonResponse.ident = 1,
            name = ''Test Area'',
            coordinates = [[[0, 0], [0x3FF0000000000000, 0],
                            [0x3FF0000000000000, 0x3FF0000000000000], [0, 0]]],
            properties = [(''color'', JStr ''blue'')],
            created_at = isoformat t0,
            updated_at = Some (isoformat t1) \<rparr>"
proof -
  have h: "session_get {} db1 1 = Inr (Some (hd (rows db1)))"
    by (simp add: session_get_def db1_eq)
  have e: "(Connect::storage_call) \<notin> {}" "(Get::storage_call) \<notin> {}"
    "(Commit::storage_call) \<notin> {}" "(Refresh::storage_call) \<notin> {}"
    by simp_all
  show ?thesis
    using h update_without_fields_sets_updated_at[OF h e, of t1]
    by (simp add: no_fields_def db1_eq from_polygon_def)
qed

subsection \<open>C3: create assigns a new positive identifier\<close>

text \<open>
  C3. On every table reached from the empty one by service calls, and a storage that
  raises nothing during the call, create with a valid request succeeds. It adds exactly
  one row to the table, holding the request's name, coordinates and properties, the
  clock reading as \<^verbatim>\<open>created_at\<close> and no \<^verbatim>\<open>updated_at\<close>. The response is the
  rendering of that row: its identifier is the key of the new row, is positive and was
  the key of no row before the call, and a lookup of it afterwards finds the new row; its
  \<^verbatim>\<open>created_at\<close> is the rendering of the clock reading and its \<^verbatim>\<open>updated_at\<close> is None.
\<close>

theorem create_assigns_new_positive_id:
  assumes "PolygonCreate_valid polygon_data"
    and "Connect \<notin> F" and "Commit \<notin> F" and "Refresh \<notin> F"
  shows "\<exists>r row.
           fst (create_polygon F now (run_calls empty_db cs) polygon_data) = Some r \<and>
           rows (snd (create_polygon F now (run_calls empty_db cs) polygon_data)) =
             rows (run_calls empty_db cs) @ [row] \<and>
           row = \<lparr> Polygon.ident = Some (PolygonResponse.ident r),
                   name = PolygonCreate.name polygon_data,
                   coordinates = PolygonCreate.coordinates polygon_data,
                   properties = PolygonCreate.properties polygon_data,
                   created_at = now,
                   updated_at = None \<rparr> \<and>
           r = from_polygon row \<and>
           0 < PolygonResponse.ident r \<and>
           Some (PolygonResponse.ident r) \<notin> Polygon.ident ` set (rows (run_calls empty_db cs)) \<and>
           session_get {} (snd (create_polygon F now (run_calls empty_db cs) polygon_data))
             (PolygonResponse.ident r) = Inr (Some row) \<and>
           PolygonResponse.created_at r = isoformat now \<and>
           PolygonResponse.updated_at r = None"
proof -
  let ?d = "run_calls empty_db cs"
  let ?row = "\<lparr> Polygon.ident = Some (next_id ?d),
                name = PolygonCreate.name polygon_data,
                coordinates = PolygonCreate.coordinates polygon_data,
                properties = PolygonCreate.properties polygon_data,
                created_at = now,
                updated_at = None \<rparr>"
  have wf: "db_wf ?d"
    by (rule db_wf_run_calls[OF db_wf_empty])
  have pos: "0 < next_id ?d"
    using wf by (simp add: db_wf_def)
  have none: "find (\<lambda>p. Polygon.ident p = Some (next_id ?d)) (rows ?d) = None"
    by (rule db_wf_next_id_fresh[OF wf])
  then have "\<not> (\<exists>p \<in> set (rows ?d). Polygon.ident p = Some (next_id ?d))"
    by (simp add: find_None_iff)
  then have fresh: "Some (next_id ?d) \<notin> Polygon.ident ` set (rows ?d)"
    by force
  note ok = create_polygon_ok[OF wf assms(2-4), of now polygon_data]
  have r: "fst (create_polygon F now ?d polygon_data) = Some (from_polygon ?row)"
    unfolding ok by (simp add: from_polygon_def)
  have rs: "rows (snd (create_polygon F now ?d polygon_data)) = rows ?d @ [?row]"
    unfolding ok by simp
  have idr: "PolygonResponse.ident (from_polygon ?row) = next_id ?d"
    by (simp add: from_polygon_def)
  have get: "session_get {} (snd (create_polygon F now ?d polygon_data))
               (PolygonResponse.ident (from_polygon ?row)) = Inr (Some ?row)"
    unfolding idr using none by (simp add: session_get_def rs find_snoc)
  have ts: "PolygonResponse.created_at (from_polygon ?row) = isoformat now"
    "PolygonResponse.updated_at (from_polygon ?row) = None"
    by (simp_all add: from_polygon_def)
  have "fst (create_polygon F now ?d polygon_data) = Some (from_polygon ?row) \<and>
        rows (snd (create_polygon F now ?d polygon_data)) = rows ?d @ [?row] \<and>
        ?row = \<lparr> Polygon.ident = Some (PolygonResponse.ident (from_polygon ?row)),
                  name = PolygonCreate.name polygon_data,
                  coordinates = PolygonCreate.coordinates polygon_data,
                  properties = PolygonCreate.properties polygon_data,
                  created_at = now,
                  updated_at = None \<rparr> \<and>
        from_polygon ?row = from_polygon ?row \<and>
        0 < PolygonResponse.ident (from_polygon ?row) \<and>
        Some (PolygonResponse.ident (from_polygon ?row)) \<notin> Polygon.ident ` set (rows ?d) \<and>
        session_get {} (snd (create_polygon F now ?d polygon_data))
          (PolygonResponse.ident (from_polygon ?row)) = Inr (Some ?row) \<and>
        PolygonResponse.created_at (from_polygon ?row) = isoformat now \<and>
        PolygonResponse.updated_at (from_polygon ?row) = None"
    using r rs get ts pos fresh by (simp add: idr)
  then show ?thesis
    by blast
qed

text \<open>
  A second polygon created at \<open>t1\<close> after the scenario's one: the response carries
  identifier 2, and the table then holds the old row followed by the new row with key 2.
\<close>

theorem create_assigns_new_positive_id_witness:
  "PolygonCreate_valid park \<and>
   Connect \<notin> {} \<and> Commit \<notin> {} \<and> Refresh \<notin> {} \<and>
   map PolygonResponse.ident
     (case fst (create_polygon {} t1 (run_calls empty_db [CreatePolygon {} t0 test_area]) park)
      of None \<Rightarrow> [] | Some r \<Rightarrow> [r]) = [2] \<and>
   map Polygon.ident
     (rows (snd (create_polygon {} t1 (run_calls empty_db [CreatePolygon {} t0 test_area])
                   park))) = [Some 1, Some 2] \<and>
   (\<exists>r row.
      fst (create_polygon {} t1 (run_calls empty_db [CreatePolygon {} t0 test_area]) park)
        = Some r \<and>
      rows (snd (create_polygon {} t1 (run_calls empty_db [CreatePolygon {} t0 test_area])
                   park)) =
        rows (run_calls empty_db [CreatePolygon {} t0 test_area]) @ [row] \<and>
      r = from_polygon row \<and>
      0 < PolygonResponse.ident r \<and>
      Some (PolygonResponse.ident r) \<notin>
        Polygon.ident ` set (rows (run_calls empty_db [CreatePolygon {} t0 test_area])) \<and>
      session_get {}
        (snd (create_polygon {} t1 (run_calls empty_db [CreatePolygon {} t0 test_area]) park))
        (PolygonResponse.ident r) = Inr (Some row) \<and>
      PolygonResponse.created_at r = isoformat t1 \<and>
      PolygonResponse.updated_at r = None)"
proof -
  have v: "PolygonCreate_valid park"
    by (simp add: PolygonCreate_valid_def park_def)
  have e: "(Connect::storage_call) \<notin> {}" "(Commit::storage_call) \<notin> {}"
    "(Refresh::storage_call) \<notin> {}"
    by simp_all
  have c: "map PolygonResponse.ident
     (case fst (create_polygon {} t1 (run_calls empty_db [CreatePolygon {} t0 test_area]) park)
      of None \<Rightarrow> [] | Some r \<Rightarrow> [r]) = [2] \<and>
   map Polygon.ident
     (rows (snd (create_polygon {} t1 (run_calls empty_db [CreatePolygon {} t0 test_area])
                   park))) = [Some 1, Some 2]"
    by (simp add: db1_run[symmetric] db1_eq create_polygon_def create_polygon_try_def
        storage_defs park_def from_polygon_def)
  show ?thesis
    using v c create_assigns_new_positive_id[OF v e, of t1 "[CreatePolygon {} t0 test_area]"]
    by blast
qed

subsection \<open>C7: get after create returns the create response\<close>

text \<open>
  C7. When create, on a table reached from the empty one by service calls, returns a
  response \<open>r\<close>, get of \<open>r\<close>'s identifier on the resulting table, with a storage that
  raises nothing, returns \<open>r\<close> itself, timestamps rendered as strings in both; and the
  name, coordinates and properties of \<open>r\<close> are those of the request, whatever JSON
  values the properties hold.
\<close>

theorem get_after_create_roundtrip:
  assumes "create_polygon F now (run_calls empty_db cs) polygon_data = (Some r, d')"
    and "Connect \<notin> G" and "Get \<notin> G"
  shows "get_polygon G d' (PolygonResponse.ident r) = (Some r, d') \<and>
         PolygonResponse.name r = PolygonCreate.name polygon_data \<and>
         PolygonResponse.coordinates r = PolygonCreate.coordinates polygon_data \<and>
         PolygonResponse.properties r = PolygonCreate.properties polygon_data"
proof -
  let ?d = "run_calls empty_db cs"
  let ?row = "\<lparr> Polygon.ident = Some (next_id ?d),
                name = PolygonCreate.name polygon_data,
                coordinates = PolygonCreate.coordinates polygon_data,
                properties = PolygonCreate.properties polygon_data,
                created_at = now,
                updated_at = None \<rparr>"
  have wf: "db_wf ?d"
    by (rule db_wf_run_calls[OF db_wf_empty])
  have "fst (create_polygon F now ?d polygon_data) = Some r"
    using assms(1) by simp
  then have nf: "Connect \<notin> F" "Commit \<notin> F" "Refresh \<notin> F"
    using create_polygon_some_no_fault by blast+
  note ok = create_polygon_ok[OF wf nf, of now polygon_data]
  have r: "r = from_polygon ?row"
    using ok assms(1) by (simp add: from_polygon_def)
  have d': "d' = ?d\<lparr> rows := rows ?d @ [?row], next_id := next_id ?d + 1 \<rparr>"
    using ok assms(1) by simp
  have "find (\<lambda>q. Polygon.ident q = Some (next_id ?d)) (rows d') = Some ?row"
    unfolding d' using db_wf_next_id_fresh[OF wf] by (simp add: find_snoc)
  then have "find (\<lambda>q. Polygon.ident q = Some (PolygonResponse.ident r)) (rows d') = Some ?row"
    unfolding r by (simp add: from_polygon_def)
  then have "get_polygon G d' (PolygonResponse.ident r) = (Some (from_polygon ?row), d')"
    using assms(2,3) by (rule get_polygon_found)
  then show ?thesis
    unfolding r by (simp add: from_polygon_def)
qed

text \<open>
  A polygon with a float, a string, a boolean and a list among its properties, created
  on the table that holds the scenario's polygon, then fetched by its identifier 2.
\<close>

theorem get_after_create_roundtrip_witness:
  "fst (create_polygon {} t1 (run_calls empty_db [CreatePolygon {} t0 test_area]) park) =
     Some \<lparr> PolygonResponse.ident = 2,
            name = ''Complex Polygon'',
            coordinates = [[[0, 0], [0x3FF0000000000000, 0],
                            [0x3FF0000000000000, 0x3FF0000000000000], [0, 0]]],
            properties = [(''area'', JFloat 0x40938A0000000000), (''type'', JStr ''park''),
                          (''test'', JBool True), (''tags'', JList [JStr ''green'', JInt 2])],
            created_at = isoformat t1,
            updated_at = None \<rparr> \<and>
   Connect \<notin> {} \<and> Get \<notin> {} \<and>
   fst (get_polygon {}
         (snd (create_polygon {} t1 (run_calls empty_db [CreatePolygon {} t0 test_area]) park))
         2) =
     fst (create_polygon {} t1 (run_calls empty_db [CreatePolygon {} t0 test_area]) park)"
proof -
  let ?d = "run_calls empty_db [CreatePolygon {} t0 test_area]"
  let ?r = "\<lparr> PolygonResponse.ident = 2,
            name = ''Complex Polygon'',
            coordinates = [[[0, 0], [0x3FF0000000000000, 0],
                            [0x3FF0000000000000, 0x3FF0000000000000], [0, 0]]],
            properties = [(''area'', JFloat 0x40938A0000000000), (''type'', JStr ''park''),
                          (''test'', JBool True), (''tags'', JList [JStr ''green'', JInt 2])],
            created_at = isoformat t1,
            updated_at = None \<rparr>"
  have r: "fst (create_polygon {} t1 ?d park) = Some ?r"
    by (simp add: db1_run[symmetric] db1_eq create_polygon_def create_polygon_try_def
        storage_defs park_def from_polygon_def)
  have h: "create_polygon {} t1 ?d park = (Some ?r, snd (create_polygon {} t1 ?d park))"
    using r by (simp add: prod_eq_iff)
  have e: "(Connect::storage_call) \<notin> {}" "(Get::storage_call) \<notin> {}"
    by simp_all
  show ?thesis
    using r get_after_create_roundtrip[OF h e]
    by simp
qed

subsection \<open>C6: delete and the not-found outcome\<close>

text \<open>
  C6. On a storage that raises nothing: delete of an existing identifier returns True
  and removes the row, and a get of that identifier afterwards returns None; delete of
  an absent identifier returns False, get and update of an absent identifier return
  None, and in all three the body returns normally: no exception is raised.
\<close>

theorem delete_and_not_found:
  "(session_get {} d i = Inr (Some p) \<and> Connect \<notin> F \<and> Get \<notin> F \<and> Commit \<notin> F \<longrightarrow>
      fst (delete_polygon F d i) = True \<and>
      rows (snd (delete_polygon F d i)) = filter (\<lambda>q. Polygon.ident q \<noteq> Some i) (rows d) \<and>
      fst (get_polygon_try {} (snd (delete_polygon F d i)) i) = Inr None \<and>
      fst (get_polygon {} (snd (delete_polygon F d i)) i) = None) \<and>
   (session_get {} d j = Inr None \<and> Connect \<notin> G \<and> Get \<notin> G \<longrightarrow>
      delete_polygon_try G d j = (Inr False, d) \<and>
      delete_polygon G d j = (False, d) \<and>
      get_polygon_try G d j = (Inr None, d) \<and>
      get_polygon G d j = (None, d) \<and>
      update_polygon_try G now d j u = (Inr None, d) \<and>
      update_polygon G now d j u = (None, d))"
proof (intro conjI impI)
  assume a: "session_get {} d i = Inr (Some p) \<and> Connect \<notin> F \<and> Get \<notin> F \<and> Commit \<notin> F"
  then have f: "find (\<lambda>q. Polygon.ident q = Some i) (rows d) = Some p"
    by (simp add: session_get_def)
  have del: "delete_polygon F d i =
      (True, d\<lparr> rows := filter (\<lambda>q. Polygon.ident q \<noteq> Some i) (rows d) \<rparr>)"
    using a by (intro delete_polygon_ok[OF f]) simp_all
  have gone: "find (\<lambda>q. Polygon.ident q = Some i)
                (filter (\<lambda>q. Polygon.ident q \<noteq> Some i) (rows d)) = None"
    by (simp add: find_None_iff)
  show "fst (delete_polygon F d i) = True"
    by (simp add: del)
  show "rows (snd (delete_polygon F d i)) = filter (\<lambda>q. Polygon.ident q \<noteq> Some i) (rows d)"
    by (simp add: del)
  show "fst (get_polygon_try {} (snd (delete_polygon F d i)) i) = Inr None"
    using gone by (simp add: del get_polygon_try_def storage_defs)
  show "fst (get_polygon {} (snd (delete_polygon F d i)) i) = None"
    using gone by (simp add: del get_polygon_absent)
next
  assume b: "session_get {} d j = Inr None \<and> Connect \<notin> G \<and> Get \<notin> G"
  then have f: "find (\<lambda>q. Polygon.ident q = Some j) (rows d) = None"
    by (simp add: session_get_def)
  show "delete_polygon_try G d j = (Inr False, d)"
    using b f by (simp add: delete_polygon_try_def storage_defs)
  show "delete_polygon G d j = (False, d)"
    using f by (rule delete_polygon_absent)
  show "get_polygon_try G d j = (Inr None, d)"
    using b f by (simp add: get_polygon_try_def storage_defs)
  show "get_polygon G d j = (None, d)"
    using f by (rule get_polygon_absent)
  show "update_polygon_try G now d j u = (Inr None, d)"
    using b f by (simp add: update_polygon_try_eq storage_defs)
  show "update_polygon G now d j u = (None, d)"
    using f by (rule update_polygon_absent)
qed

text \<open>
  The scenario's polygon deleted and looked up again; identifier 999, which the table
  does not hold, deleted, looked up and updated.
\<close>

theorem delete_and_not_found_witness:
  "session_get {} db1 1 = Inr (Some (hd (rows db1))) \<and>
   fst (delete_polygon {} db1 1) = True \<and>
   rows (snd (delete_polygon {} db1 1)) = [] \<and>
   fst (get_polygon {} (snd (delete_polygon {} db1 1)) 1) = None \<and>
   session_get {} db1 999 = Inr None \<and>
   delete_polygon {} db1 999 = (False, db1) \<and>
   get_polygon {} db1 999 = (None, db1) \<and>
   update_polygon {} t1 db1 999 rename_X = (None, db1)"
proof -
  have h1: "session_get {} db1 1 = Inr (Some (hd (rows db1)))"
    by (simp add: session_get_def db1_eq)
  have h2: "session_get {} db1 999 = Inr None"
    by (simp add: session_get_def db1_eq)
  have r: "filter (\<lambda>q. Polygon.ident q \<noteq> Some 1) (rows db1) = []"
    by (simp add: db1_eq)
  show ?thesis
    using h1 h2 r
      delete_and_not_found[where d = db1 and i = 1 and p = "hd (rows db1)" and F = "{}"
        and j = 999 and G = "{}" and now = t1 and u = rename_X]
    by simp
qed

subsection \<open>C9: a storage failure looks like a benign outcome\<close>

text \<open>
  C9. When a storage call raises during get, get returns None, which is also what a get
  on a working storage returns for an identifier the table does not hold. When a storage
  call raises during list, list returns the response with no polygon and total 0, which
  is also what list returns on a working storage for the empty table.
\<close>

theorem storage_failure_looks_benign:
  "(fst (get_polygon_try F d polygon_id) = Inl e \<and> session_get {} d2 absent = Inr None \<longrightarrow>
      fst (get_polygon F d polygon_id) = None \<and>
      fst (get_polygon_try {} d2 absent) = Inr None \<and>
      fst (get_polygon F d polygon_id) = fst (get_polygon {} d2 absent)) \<and>
   (fst (list_polygons_try F' d) = Inl e' \<longrightarrow>
      fst (list_polygons F' d) = \<lparr> polygons = [], total = 0 \<rparr> \<and>
      fst (list_polygons_try {} empty_db) = Inr \<lparr> polygons = [], total = 0 \<rparr> \<and>
      fst (list_polygons F' d) = fst (list_polygons {} empty_db))"
proof (intro conjI impI)
  assume a: "fst (get_polygon_try F d polygon_id) = Inl e \<and> session_get {} d2 absent = Inr None"
  then have f: "find (\<lambda>q. Polygon.ident q = Some absent) (rows d2) = None"
    by (simp add: session_get_def)
  show g: "fst (get_polygon F d polygon_id) = None"
    using a get_polygon_contained[of F d polygon_id e] by simp
  show "fst (get_polygon_try {} d2 absent) = Inr None"
    using f by (simp add: get_polygon_try_def storage_defs)
  show "fst (get_polygon F d polygon_id) = fst (get_polygon {} d2 absent)"
    using g f by (simp add: get_polygon_absent)
next
  assume b: "fst (list_polygons_try F' d) = Inl e'"
  have l0: "list_polygons {} empty_db = (\<lparr> polygons = [], total = 0 \<rparr>, empty_db)"
    by (simp add: list_polygons_ok) (simp add: empty_db_def order_by_created_at_desc_def)
  show l: "fst (list_polygons F' d) = \<lparr> polygons = [], total = 0 \<rparr>"
    using list_polygons_contained[OF b] by simp
  show "fst (list_polygons_try {} empty_db) = Inr \<lparr> polygons = [], total = 0 \<rparr>"
    by (simp add: list_polygons_try_def storage_defs empty_db_def order_by_created_at_desc_def)
  show "fst (list_polygons F' d) = fst (list_polygons {} empty_db)"
    using l l0 by simp
qed

text \<open>
  On the table holding the scenario's polygon: the lookup fails in a get of identifier 1,
  which the table holds, and the query fails in list.
\<close>

theorem storage_failure_looks_benign_witness:
  "fst (get_polygon_try {Get} db1 1) = Inl (StorageError Get) \<and>
   session_get {} db1 999 = Inr None \<and>
   fst (get_polygon {Get} db1 1) = None \<and>
   fst (get_polygon {} db1 999) = None \<and>
   fst (list_polygons_try {Exec} db1) = Inl (StorageError Exec) \<and>
   fst (list_polygons {Exec} db1) = \<lparr> polygons = [], total = 0 \<rparr> \<and>
   fst (list_polygons {} empty_db) = \<lparr> polygons = [], total = 0 \<rparr>"
proof -
  have h1: "fst (get_polygon_try {Get} db1 1) = Inl (StorageError Get)"
    by (simp add: get_polygon_try_def storage_defs)
  have h2: "session_get {} db1 999 = Inr None"
    by (simp add: session_get_def db1_eq)
  have h3: "fst (list_polygons_try {Exec} db1) = Inl (StorageError Exec)"
    by (simp add: list_polygons_try_def storage_defs)
  show ?thesis
    using h1 h2 h3
      storage_failure_looks_benign[where F = "{Get}" and d = db1 and polygon_id = 1
        and e = "StorageError Get" and ?d2.0 = db1 and absent = 999
        and F' = "{Exec}" and e' = "StorageError Exec"]
    by auto
qed


subsection \<open>C4: list returns every polygon, newest first\<close>

text \<open>
  C4. On a storage that raises nothing, list returns the renderings of a rearrangement
  of all stored rows in which every row's \<^verbatim>\<open>created_at\<close> is at least that of each row
  after it, and \<^verbatim>\<open>total\<close> is the number of polygons returned. After one successful
  create per entry of \<open>reqs\<close> on the empty table it returns as many entries as \<open>reqs\<close>
  has, with that total; on the empty table it returns no polygon and total 0.
\<close>

theorem list_polygons_newest_first:
  assumes "Connect \<notin> F" and "Exec \<notin> F"
  shows "(\<exists>ps. fst (list_polygons F d) =
                \<lparr> polygons = map from_polygon ps, total = int (length ps) \<rparr> \<and>
              mset ps = mset (rows d) \<and>
              sorted_wrt (\<lambda>a b. datetime_key (Polygon.created_at b)
                                 \<le> datetime_key (Polygon.created_at a)) ps) \<and>
         total (fst (list_polygons F d)) = int (length (polygons (fst (list_polygons F d)))) \<and>
         length (polygons (fst (list_polygons F (create_many empty_db reqs)))) = length reqs \<and>
         total (fst (list_polygons F (create_many empty_db reqs))) = int (length reqs) \<and>
         fst (list_polygons F empty_db) = \<lparr> polygons = [], total = 0 \<rparr>"
proof -
  have len: "length (order_by_created_at_desc (rows d)) = length (rows d)" for d
    by (simp add: order_by_created_at_desc_def)
  have l: "fst (list_polygons F d) =
      \<lparr> polygons = map from_polygon (order_by_created_at_desc (rows d)),
        total = int (length (order_by_created_at_desc (rows d))) \<rparr>" for d
    using list_polygons_ok[OF assms, of d] by (simp add: len)
  have first: "\<exists>ps. fst (list_polygons F d) =
                \<lparr> polygons = map from_polygon ps, total = int (length ps) \<rparr> \<and>
              mset ps = mset (rows d) \<and>
              sorted_wrt (\<lambda>a b. datetime_key (Polygon.created_at b)
                                 \<le> datetime_key (Polygon.created_at a)) ps"
    using l[of d] order_by_created_at_desc_mset[of "rows d"]
      order_by_created_at_desc_sorted[of "rows d"]
    by blast
  have n: "length (rows (create_many empty_db reqs)) = length reqs"
    using create_many_rows[OF db_wf_empty, of reqs] by (simp add: empty_db_def)
  have e: "fst (list_polygons F empty_db) = \<lparr> polygons = [], total = 0 \<rparr>"
    by (simp add: l) (simp add: empty_db_def order_by_created_at_desc_def)
  have t: "total (fst (list_polygons F d)) = int (length (polygons (fst (list_polygons F d))))"
    by (simp add: l)
  have n1: "length (polygons (fst (list_polygons F (create_many empty_db reqs)))) = length reqs"
    using n by (simp add: l len)
  have n2: "total (fst (list_polygons F (create_many empty_db reqs))) = int (length reqs)"
    using n by (simp add: l len)
  show ?thesis
    using first t n1 n2 e by (intro conjI)
qed

text \<open>
  Two polygons created at \<open>t0\<close> and then at \<open>t1\<close>: list returns identifier 2, created
  last, before identifier 1.
\<close>

theorem list_polygons_newest_first_witness:
  "Connect \<notin> {} \<and> Exec \<notin> {} \<and>
   map PolygonResponse.ident
     (polygons (fst (list_polygons {} (create_many empty_db [(t0, test_area), (t1, test_area)]))))
     = [2, 1] \<and>
   total (fst (list_polygons {} (create_many empty_db [(t0, test_area), (t1, test_area)]))) = 2 \<and>
   fst (list_polygons {} empty_db) = \<lparr> polygons = [], total = 0 \<rparr>"
proof -
  have e: "(Connect::storage_call) \<notin> {}" "(Exec::storage_call) \<notin> {}"
    by simp_all
  have o: "map PolygonResponse.ident
     (polygons (fst (list_polygons {} (create_many empty_db [(t0, test_area), (t1, test_area)]))))
     = [2, 1]"
    by (simp add: list_polygons_def list_polygons_try_def create_polygon_def
        create_polygon_try_def storage_defs empty_db_def order_by_created_at_desc_def
        datetime_key_def t0_def t1_def from_polygon_def Let_def)
  show ?thesis
    using o list_polygons_newest_first[OF e,
        of "create_many empty_db [(t0, test_area), (t1, test_area)]"
           "[(t0, test_area), (t1, test_area)]"]
    by simp
qed

subsection \<open>C5: stored names\<close>

lemma renamed_rows:
  "rows (run_calls empty_db [CreatePolygon {} t0 test_area, UpdatePolygon {} t1 1 rename_X]) =
     [\<lparr> Polygon.ident = Some 1,
        name = ''X'',
        coordinates = [[[0, 0], [0x3FF0000000000000, 0],
                        [0x3FF0000000000000, 0x3FF0000000000000], [0, 0]]],
        properties = [(''color'', JStr ''blue'')],
        created_at = t0,
        updated_at = Some t1 \<rparr>]"
  by (simp add: run_calls_def create_polygon_def create_polygon_try_def update_polygon_def
      update_polygon_try_eq apply_update_def storage_defs empty_db_def test_area_def
      rename_X_def)

lemma renamed_valid:
  "list_all call_valid [CreatePolygon {} t0 test_area, UpdatePolygon {} t1 1 rename_X]"
  by (simp add: PolygonCreate_valid_def PolygonUpdate_valid_def test_area_def rename_X_def)

text \<open>
  C5, as amended. In every table reached from the empty one by service calls whose
  request objects pass the validation of their classes, every stored name has at least
  one and at most 255 characters. Nothing is trimmed: a name made of whitespace only is a
  valid name for the service.
\<close>

theorem stored_name_nonempty_and_bounded:
  assumes "list_all call_valid cs" and "p \<in> set (rows (run_calls empty_db cs))"
  shows "1 \<le> length (Polygon.name p) \<and> length (Polygon.name p) \<le> 255"
proof -
  have "list_all row_ok (rows (run_calls empty_db cs))"
    using assms(1) by (rule row_ok_run_calls) (simp add: empty_db_def)
  then show ?thesis
    using assms(2) by (simp add: list_all_iff row_ok_def)
qed

text \<open>The scenario's polygon, created and then renamed to "X".\<close>

theorem stored_name_nonempty_and_bounded_witness:
  "list_all call_valid [CreatePolygon {} t0 test_area, UpdatePolygon {} t1 1 rename_X] \<and>
   hd (rows (run_calls empty_db [CreatePolygon {} t0 test_area, UpdatePolygon {} t1 1 rename_X]))
     \<in> set (rows (run_calls empty_db
                    [CreatePolygon {} t0 test_area, UpdatePolygon {} t1 1 rename_X])) \<and>
   Polygon.name
     (hd (rows (run_calls empty_db
                  [CreatePolygon {} t0 test_area, UpdatePolygon {} t1 1 rename_X]))) = ''X'' \<and>
   1 \<le> length ''X'' \<and> length ''X'' \<le> 255"
proof -
  have m: "hd (rows (run_calls empty_db
                [CreatePolygon {} t0 test_area, UpdatePolygon {} t1 1 rename_X]))
     \<in> set (rows (run_calls empty_db
                    [CreatePolygon {} t0 test_area, UpdatePolygon {} t1 1 rename_X]))"
    by (simp add: renamed_rows)
  show ?thesis
    using renamed_valid m stored_name_nonempty_and_bounded[OF renamed_valid m]
    by (simp add: renamed_rows)
qed

text \<open>
  C5 as stated fails: a creation request whose name is three spaces passes the
  validation, create stores the name as it is, and trimming it leaves the empty string.
\<close>

theorem blank_name_is_stored:
  "PolygonCreate_valid blank_name \<and>
   list_all call_valid [CreatePolygon {} t0 blank_name] \<and>
   map Polygon.name (rows (run_calls empty_db [CreatePolygon {} t0 blank_name])) = [''   ''] \<and>
   strip ''   '' = ''''"
  by (simp add: PolygonCreate_valid_def blank_name_def run_calls_def create_polygon_def
      create_polygon_try_def storage_defs empty_db_def strip_def isspace_def)

subsection \<open>C8: stored coordinates\<close>

text \<open>
  C8 fails on the code. Both request classes declare \<^verbatim>\<open>min_items=1\<close> on their
  coordinates, yet a request without any ring passes their validation, and the service
  has no check of its own. On the empty table, create with such a request succeeds and
  stores a polygon whose coordinates are the empty list; on the table holding the
  scenario's polygon, an update that supplies the empty list replaces the stored ring by
  nothing.
\<close>

theorem empty_coordinates_are_stored:
  "PolygonCreate_valid no_rings \<and>
   list_all call_valid [CreatePolygon {} t0 no_rings] \<and>
   map PolygonResponse.coordinates
     (case fst (create_polygon {} t0 empty_db no_rings) of None \<Rightarrow> [] | Some r \<Rightarrow> [r]) = [[]] \<and>
   map Polygon.coordinates (rows (run_calls empty_db [CreatePolygon {} t0 no_rings])) = [[]] \<and>
   PolygonUpdate_valid drop_rings \<and>
   list_all call_valid [CreatePolygon {} t0 test_area, UpdatePolygon {} t1 1 drop_rings] \<and>
   map Polygon.coordinates
     (rows (run_calls empty_db [CreatePolygon {} t0 test_area, UpdatePolygon {} t1 1 drop_rings]))
     = [[]]"
  by (simp add: PolygonCreate_valid_def PolygonUpdate_valid_def no_rings_def drop_rings_def
      test_area_def run_calls_def create_polygon_def create_polygon_try_def update_polygon_def
      update_polygon_try_eq apply_update_def storage_defs empty_db_def from_polygon_def)

end
